theory Spec2Isabelle
  imports Main "HOL-Library.Word"
begin

section \<open>HoneyBadger Vanguard API: the ingestion server and its key generator\<close>

text \<open>
  A shallow embedding of the Express server (authentication middleware, beacon,
  result submission, result query, agent listing), of the key generator script
  and of the parts of the PostgreSQL schema they touch. A character of
  \<^typ>\<open>string\<close> stands for a code unit of a JavaScript string, up to U+00FF;
  timestamps and UUIDs are natural numbers. The logger's output and the two
  public routes (status, modules) are left out.
\<close>

subsection \<open>Values\<close>

datatype json =
    JNull
  | JBool bool
  | JNum int
  | JStr string
  | JArr "json list"
  | JObj "(string \<times> json) list"

text \<open>A cell of a row that \<open>pool.query\<close> hands back, and a row as the JavaScript
  object it is: the selected columns, by name.\<close>

datatype sqlval = SNull | SInt nat | SText string | SBool bool | STime nat | SJson json

type_synonym row = "(string \<times> sqlval) list"

subsection \<open>Tables of the schema\<close>

record api_key =
  key_id :: nat
  key_hash :: string
  key_name :: string
  key_created_at :: nat
  key_last_used_at :: "nat option"
  key_is_active :: bool
  key_metadata :: json

record agent =
  ag_id :: nat
  ag_agent_id :: string
  ag_hostname :: "string option"
  ag_platform :: "string option"
  ag_ip_address :: string
  ag_version :: "string option"
  ag_first_seen :: nat
  ag_last_seen :: nat
  ag_is_active :: bool
  ag_metadata :: json

record beacon =
  bc_id :: nat
  bc_agent_id :: string
  bc_timestamp :: nat
  bc_ip_address :: string
  bc_status :: string
  bc_metadata :: json

record result =
  rs_id :: nat
  rs_agent_id :: string
  rs_module :: string
  rs_target :: "string option"
  rs_result_type :: "string option"
  rs_data :: json
  rs_timestamp :: nat
  rs_severity :: "string option"
  rs_metadata :: json

record db =
  api_keys :: "api_key list"
  agents :: "agent list"
  beacons :: "beacon list"
  results :: "result list"

subsection \<open>Libraries and environment\<close>

text \<open>
  The functions of the libraries the code calls are parameters: bcrypt's \<open>hash\<close>
  (data, rounds, salt) and \<open>compare\<close> (data, stored hash), the JSON parser that Joi
  applies to a string where it expects an object, and PostgreSQL's input
  conversion for \<open>timestamptz\<close>. So is what depends on the release of
  \<open>express-rate-limit\<close> that is installed: the headers it sets besides the three
  of \<open>standardHeaders\<close> (\<open>RateLimit-Policy\<close>, \<open>Retry-After\<close>), given the maximum, the
  seconds to the end of the window and whether the request is rejected; and
  whether a maximum of zero rejects every request or none.
\<close>

record lib =
  bcrypt_hash :: "string \<Rightarrow> nat \<Rightarrow> string \<Rightarrow> string"
  bcrypt_compare :: "string \<Rightarrow> string \<Rightarrow> bool"
  json_parse :: "string \<Rightarrow> json option"
  timestamptz_in :: "string \<Rightarrow> nat option"
  further_headers :: "nat \<Rightarrow> nat \<Rightarrow> bool \<Rightarrow> (string \<times> string) list"
  zero_limit_blocks :: bool

text \<open>
  What the surroundings decide for a run: whether the \<open>n\<close>-th call of
  \<open>pool.query\<close> completes (a connection may be lost or time out), the
  \<open>CURRENT_TIMESTAMP\<close> and the \<open>uuid_generate_v4()\<close> it sees, what becomes of the
  Redis command of the limiter (it counts the hit, it is rejected, or it is never
  answered: the client queues commands while Redis cannot be reached), and the
  server's own clock (milliseconds).
\<close>

datatype redis_reply = Counted | Failed | Unanswered

record env =
  completes :: "nat \<Rightarrow> bool"
  db_now :: "nat \<Rightarrow> nat"
  uuid :: "nat \<Rightarrow> nat"
  redis :: redis_reply
  date_now :: nat

text \<open>
  The state a request runs against: the database, the number of \<open>pool.query\<close>
  calls issued so far, the number of \<open>bcrypt.compare\<close> calls made so far, and the
  limiter's counters in Redis (hits and reset time per client address).
\<close>

record world =
  store :: db
  calls :: nat
  compares :: nat
  hits :: "string \<Rightarrow> (nat \<times> nat) option"

datatype pg_error = ConnectionError | ConstraintViolation | InvalidInput

definition pool_query ::
  "env \<Rightarrow> (nat \<Rightarrow> nat \<Rightarrow> db \<Rightarrow> pg_error + ('r \<times> db)) \<Rightarrow> world \<Rightarrow> (pg_error + 'r) \<times> world" where
  "pool_query E stmt w =
     (let n = calls w; w' = w\<lparr>calls := Suc n\<rparr> in
      if \<not> completes E n then (Inl ConnectionError, w')
      else case stmt (db_now E n) (uuid E n) (store w) of
             Inl e \<Rightarrow> (Inl e, w')
           | Inr (r, d) \<Rightarrow> (Inr r, w'\<lparr>store := d\<rparr>))"

subsection \<open>Requests and responses\<close>

text \<open>
  Header names are lower case, as Node delivers them; query parameters are the
  plain strings of \<open>?name=value\<close>; \<open>body\<close> is what the body parsers leave in
  \<open>req.body\<close>, the empty object where the request had nothing to parse.
\<close>

record request =
  headers :: "string \<Rightarrow> string option"
  ip :: string
  body :: json
  query :: "string \<Rightarrow> string option"

text \<open>\<open>body.k\<close> on a parsed body: the entry of an object, undefined elsewhere.\<close>

definition body_field :: "json \<Rightarrow> string \<Rightarrow> json option" where
  "body_field b k = (case b of JObj kvs \<Rightarrow> map_of kvs k | _ \<Rightarrow> None)"

definition is_string :: "json \<Rightarrow> bool" where
  "is_string b = (case b of JStr s \<Rightarrow> True | _ \<Rightarrow> False)"

datatype payload =
    Error string
  | BeaconAck string nat
  | ResultAck nat nat
  | ResultPage "result list" nat json json
  | AgentPage "agent list" nat

record response =
  status :: nat
  rate_headers :: "(string \<times> string) list"
  payload :: payload

text \<open>What a middleware does with a request: it answers, it hands the request on,
  or it does neither (the request stays open).\<close>

datatype 'a step = Respond response | Next 'a | Pending

definition reply :: "nat \<Rightarrow> payload \<Rightarrow> response" where
  "reply code p = \<lparr>status = code, rate_headers = [], payload = p\<rparr>"

subsection \<open>Authentication middleware\<close>

text \<open>\<open>String.prototype.replace\<close> with a string pattern: the first occurrence only,
  wherever it is.\<close>

fun replace_first :: "string \<Rightarrow> string \<Rightarrow> string \<Rightarrow> string" where
  "replace_first pat rep [] = (if pat = [] then rep else [])"
| "replace_first pat rep (c # cs) =
     (if take (length pat) (c # cs) = pat then rep @ drop (length pat) (c # cs)
      else c # replace_first pat rep cs)"

text \<open>\<open>a || b\<close> on values that are a string or \<open>undefined\<close>; \<open>undefined\<close> and the
  empty string are falsy.\<close>

definition js_or :: "string option \<Rightarrow> string option \<Rightarrow> string option" where
  "js_or a b = (case a of None \<Rightarrow> b | Some s \<Rightarrow> if s = [] then b else Some s)"

definition truthy :: "string option \<Rightarrow> bool" where
  "truthy a = (case a of None \<Rightarrow> False | Some s \<Rightarrow> s \<noteq> [])"

definition presented_key :: "request \<Rightarrow> string option" where
  "presented_key req =
     js_or (headers req ''x-api-key'')
           (map_option (replace_first ''Bearer '' []) (headers req ''authorization''))"

text \<open>The columns of an \<open>api_keys\<close> row, and a select list applied to a row.\<close>

definition api_key_row :: "api_key \<Rightarrow> row" where
  "api_key_row k =
     [(''id'', SInt (key_id k)),
      (''key_hash'', SText (key_hash k)),
      (''name'', SText (key_name k)),
      (''created_at'', STime (key_created_at k)),
      (''last_used_at'', (case key_last_used_at k of None \<Rightarrow> SNull | Some t \<Rightarrow> STime t)),
      (''is_active'', SBool (key_is_active k)),
      (''metadata'', SJson (key_metadata k))]"

definition select_cols :: "string list \<Rightarrow> row \<Rightarrow> row" where
  "select_cols cols r = filter (\<lambda>(c, v). c \<in> set cols) r"

text \<open>\<open>SELECT id, name, is_active FROM api_keys WHERE is_active = TRUE\<close>\<close>

definition select_active_keys :: "nat \<Rightarrow> nat \<Rightarrow> db \<Rightarrow> pg_error + (row list \<times> db)" where
  "select_active_keys now u d =
     Inr (map (\<lambda>k. select_cols [''id'', ''name'', ''is_active''] (api_key_row k))
              (filter key_is_active (api_keys d)), d)"

text \<open>\<open>row.key_hash || ''\<close>: the property, or the empty string where the row has no
  such property or it is falsy.\<close>

definition key_hash_or_empty :: "row \<Rightarrow> string" where
  "key_hash_or_empty r = (case map_of r ''key_hash'' of Some (SText h) \<Rightarrow> h | _ \<Rightarrow> [])"

text \<open>The \<open>for\<close> loop: the first row whose hash matches, and the number of
  comparisons made.\<close>

fun scan_keys :: "lib \<Rightarrow> string \<Rightarrow> row list \<Rightarrow> row option \<times> nat" where
  "scan_keys L k [] = (None, 0)"
| "scan_keys L k (r # rs) =
     (if bcrypt_compare L k (key_hash_or_empty r) then (Some r, 1)
      else (case scan_keys L k rs of (v, n) \<Rightarrow> (v, Suc n)))"

text \<open>\<open>UPDATE api_keys SET last_used_at = CURRENT_TIMESTAMP WHERE id = $1\<close>\<close>

definition touch_last_used :: "sqlval option \<Rightarrow> nat \<Rightarrow> nat \<Rightarrow> db \<Rightarrow> pg_error + (unit \<times> db)" where
  "touch_last_used idv now u d =
     Inr ((), d\<lparr>api_keys :=
        map (\<lambda>k. if idv = Some (SInt (key_id k)) then k\<lparr>key_last_used_at := Some now\<rparr> else k)
            (api_keys d)\<rparr>)"

text \<open>The end of the middleware once a key matched: the touch is awaited, then
  \<open>next()\<close> runs; a rejected touch goes to the \<open>catch\<close>.\<close>

definition touch_and_next :: "env \<Rightarrow> world \<Rightarrow> row \<Rightarrow> row step \<times> world" where
  "touch_and_next E w validKey =
     (case pool_query E (touch_last_used (map_of validKey ''id'')) w of
        (Inl e, w') \<Rightarrow> (Respond (reply 500 (Error ''Authentication failed'')), w')
      | (Inr u, w') \<Rightarrow> (Next validKey, w'))"

definition authenticateApiKey :: "lib \<Rightarrow> env \<Rightarrow> world \<Rightarrow> request \<Rightarrow> row step \<times> world" where
  "authenticateApiKey L E w req =
     (let apiKey = presented_key req in
      if \<not> truthy apiKey then (Respond (reply 401 (Error ''API key required'')), w)
      else case pool_query E select_active_keys w of
             (Inl e, w1) \<Rightarrow> (Respond (reply 500 (Error ''Authentication failed'')), w1)
           | (Inr rows, w1) \<Rightarrow>
               (case scan_keys L (case apiKey of Some k \<Rightarrow> k | None \<Rightarrow> []) rows of (validKey, n) \<Rightarrow>
                  (let w2 = w1\<lparr>compares := compares w1 + n\<rparr> in
                   case validKey of
                     None \<Rightarrow> (Respond (reply 401 (Error ''Invalid API key'')), w2)
                   | Some r \<Rightarrow> touch_and_next E w2 r)))"

subsection \<open>Key generator\<close>

text \<open>
  Assignment to a \<open>VARCHAR(n)\<close> column: a longer string is an error, unless the
  excess is all spaces, which PostgreSQL cuts off.
\<close>

definition pg_varchar :: "nat \<Rightarrow> string \<Rightarrow> string option" where
  "pg_varchar n s =
     (if length s \<le> n then Some s
      else if list_all (\<lambda>c. c = CHR '' '') (drop n s) then Some (take n s)
      else None)"

definition pg_varchar_opt :: "nat \<Rightarrow> string option \<Rightarrow> string option option" where
  "pg_varchar_opt n v = (case v of None \<Rightarrow> Some None | Some s \<Rightarrow> map_option Some (pg_varchar n s))"

definition hex_digit :: "nat \<Rightarrow> char" where
  "hex_digit n = ''0123456789abcdef'' ! (n mod 16)"

definition to_hex :: "8 word list \<Rightarrow> string" where
  "to_hex bs = concat (map (\<lambda>b. [hex_digit (unat b div 16), hex_digit (unat b)]) bs)"

text \<open>\<open>INSERT INTO api_keys (key_hash, name, is_active) VALUES ($1, $2, TRUE)
  RETURNING id, created_at\<close>; \<open>key_hash\<close> is \<open>UNIQUE\<close>, \<open>id\<close> the primary key.\<close>

definition insert_api_key ::
  "string \<Rightarrow> string \<Rightarrow> nat \<Rightarrow> nat \<Rightarrow> db \<Rightarrow> pg_error + ((nat \<times> nat) \<times> db)" where
  "insert_api_key keyHash name now u d =
     (case (pg_varchar 255 keyHash, pg_varchar 255 name) of
        (Some h, Some n) \<Rightarrow>
          if h \<in> set (map key_hash (api_keys d)) \<or> u \<in> set (map key_id (api_keys d))
          then Inl ConstraintViolation
          else Inr ((u, now), d\<lparr>api_keys := api_keys d @
                 [\<lparr>key_id = u, key_hash = h, key_name = n, key_created_at = now,
                   key_last_used_at = None, key_is_active = True, key_metadata = JObj []\<rparr>]\<rparr>)
      | _ \<Rightarrow> Inl InvalidInput)"

text \<open>The script's outcome: exit code 1, or the key it prints. \<open>rand\<close> are the bytes of
  \<open>crypto.randomBytes(32)\<close>, \<open>salt\<close> the salt bcrypt draws.\<close>

datatype cli = Exit1 | Printed string

definition generateApiKey ::
  "lib \<Rightarrow> env \<Rightarrow> world \<Rightarrow> string option \<Rightarrow> 8 word list \<Rightarrow> string \<Rightarrow> cli \<times> world" where
  "generateApiKey L E w name rand salt =
     (if \<not> truthy name then (Exit1, w)
      else let apiKey = ''hbv_'' @ to_hex rand;
               keyHash = bcrypt_hash L apiKey 12 salt in
           case pool_query E (insert_api_key keyHash (case name of Some n \<Rightarrow> n | None \<Rightarrow> [])) w of
             (Inl e, w') \<Rightarrow> (Exit1, w')
           | (Inr r, w') \<Rightarrow> (Printed apiKey, w'))"

subsection \<open>Validation schemas\<close>

text \<open>
  Joi with its defaults: the first error ends the validation; the keys are
  checked in the order of the schema, unknown keys after them; a string must be
  a non-empty string; where an object is expected a string holding one is
  parsed first. A \<open>JObj\<close> lists each key of the object once.
\<close>

datatype joi_error =
    AnyRequired string
  | StringBase string
  | StringEmpty string
  | ObjectBase string
  | AnyOnly string "string list"
  | ObjectUnknown string

definition quoted :: "string \<Rightarrow> string" where
  "quoted label = [CHR 0x22] @ label @ [CHR 0x22]"

fun join_comma :: "string list \<Rightarrow> string" where
  "join_comma [] = []"
| "join_comma [x] = x"
| "join_comma (x # y # ys) = x @ '', '' @ join_comma (y # ys)"

fun joi_message :: "joi_error \<Rightarrow> string" where
  "joi_message (AnyRequired l) = quoted l @ '' is required''"
| "joi_message (StringBase l) = quoted l @ '' must be a string''"
| "joi_message (StringEmpty l) = quoted l @ '' is not allowed to be empty''"
| "joi_message (ObjectBase l) = quoted l @ '' must be of type object''"
| "joi_message (AnyOnly l vs) = quoted l @ '' must be one of ['' @ join_comma vs @ '']''"
| "joi_message (ObjectUnknown l) = quoted l @ '' is not allowed''"

definition sum_bind :: "'e + 'a \<Rightarrow> ('a \<Rightarrow> 'e + 'b) \<Rightarrow> 'e + 'b" where
  "sum_bind x f = (case x of Inl e \<Rightarrow> Inl e | Inr a \<Rightarrow> f a)"

definition joi_string_required :: "string \<Rightarrow> json option \<Rightarrow> joi_error + string" where
  "joi_string_required l v =
     (case v of
        None \<Rightarrow> Inl (AnyRequired l)
      | Some (JStr s) \<Rightarrow> if s = [] then Inl (StringEmpty l) else Inr s
      | Some _ \<Rightarrow> Inl (StringBase l))"

definition joi_string_optional :: "string \<Rightarrow> json option \<Rightarrow> joi_error + string option" where
  "joi_string_optional l v =
     (case v of
        None \<Rightarrow> Inr None
      | Some (JStr s) \<Rightarrow> if s = [] then Inl (StringEmpty l) else Inr (Some s)
      | Some _ \<Rightarrow> Inl (StringBase l))"

definition joi_string_valid_optional ::
  "string list \<Rightarrow> string \<Rightarrow> json option \<Rightarrow> joi_error + string option" where
  "joi_string_valid_optional vs l v =
     (case v of
        None \<Rightarrow> Inr None
      | Some (JStr s) \<Rightarrow> if s \<in> set vs then Inr (Some s) else Inl (AnyOnly l vs)
      | Some _ \<Rightarrow> Inl (AnyOnly l vs))"

definition joi_object :: "lib \<Rightarrow> string \<Rightarrow> json \<Rightarrow> joi_error + (string \<times> json) list" where
  "joi_object L l v =
     (case (case v of
              JStr s \<Rightarrow> (case json_parse L s of Some v' \<Rightarrow> v' | None \<Rightarrow> v)
            | _ \<Rightarrow> v) of
        JObj kvs \<Rightarrow> Inr kvs
      | _ \<Rightarrow> Inl (ObjectBase l))"

definition joi_object_required :: "lib \<Rightarrow> string \<Rightarrow> json option \<Rightarrow> joi_error + json" where
  "joi_object_required L l v =
     (case v of
        None \<Rightarrow> Inl (AnyRequired l)
      | Some x \<Rightarrow> sum_bind (joi_object L l x) (\<lambda>kvs. Inr (JObj kvs)))"

definition joi_object_optional :: "lib \<Rightarrow> string \<Rightarrow> json option \<Rightarrow> joi_error + json option" where
  "joi_object_optional L l v =
     (case v of
        None \<Rightarrow> Inr None
      | Some x \<Rightarrow> sum_bind (joi_object L l x) (\<lambda>kvs. Inr (Some (JObj kvs))))"

definition joi_unknown :: "string list \<Rightarrow> (string \<times> json) list \<Rightarrow> joi_error + unit" where
  "joi_unknown known kvs =
     (case find (\<lambda>k. k \<notin> set known) (map fst kvs) of
        Some k \<Rightarrow> Inl (ObjectUnknown k)
      | None \<Rightarrow> Inr ())"

record beacon_value =
  bv_agent_id :: string
  bv_hostname :: "string option"
  bv_platform :: "string option"
  bv_version :: "string option"
  bv_metadata :: "json option"

definition validate_beacon :: "lib \<Rightarrow> json \<Rightarrow> joi_error + beacon_value" where
  "validate_beacon L b =
     sum_bind (joi_object L ''value'' b) (\<lambda>kvs.
     sum_bind (joi_string_required ''agent_id'' (map_of kvs ''agent_id'')) (\<lambda>a.
     sum_bind (joi_string_optional ''hostname'' (map_of kvs ''hostname'')) (\<lambda>h.
     sum_bind (joi_string_optional ''platform'' (map_of kvs ''platform'')) (\<lambda>p.
     sum_bind (joi_string_optional ''version'' (map_of kvs ''version'')) (\<lambda>v.
     sum_bind (joi_object_optional L ''metadata'' (map_of kvs ''metadata'')) (\<lambda>m.
     sum_bind (joi_unknown [''agent_id'', ''hostname'', ''platform'', ''version'', ''metadata''] kvs) (\<lambda>u.
       Inr \<lparr>bv_agent_id = a, bv_hostname = h, bv_platform = p, bv_version = v,
            bv_metadata = m\<rparr>)))))))"

record result_value =
  rv_agent_id :: string
  rv_module :: string
  rv_target :: "string option"
  rv_result_type :: "string option"
  rv_data :: json
  rv_severity :: "string option"
  rv_metadata :: "json option"

definition validate_result :: "lib \<Rightarrow> json \<Rightarrow> joi_error + result_value" where
  "validate_result L b =
     sum_bind (joi_object L ''value'' b) (\<lambda>kvs.
     sum_bind (joi_string_required ''agent_id'' (map_of kvs ''agent_id'')) (\<lambda>a.
     sum_bind (joi_string_required ''module'' (map_of kvs ''module'')) (\<lambda>mo.
     sum_bind (joi_string_optional ''target'' (map_of kvs ''target'')) (\<lambda>t.
     sum_bind (joi_string_optional ''result_type'' (map_of kvs ''result_type'')) (\<lambda>rt.
     sum_bind (joi_object_required L ''data'' (map_of kvs ''data'')) (\<lambda>d.
     sum_bind (joi_string_valid_optional [''low'', ''medium'', ''high'', ''critical''] ''severity''
                 (map_of kvs ''severity'')) (\<lambda>s.
     sum_bind (joi_object_optional L ''metadata'' (map_of kvs ''metadata'')) (\<lambda>m.
     sum_bind (joi_unknown [''agent_id'', ''module'', ''target'', ''result_type'', ''data'',
                            ''severity'', ''metadata''] kvs) (\<lambda>u.
       Inr \<lparr>rv_agent_id = a, rv_module = mo, rv_target = t, rv_result_type = rt, rv_data = d,
            rv_severity = s, rv_metadata = m\<rparr>)))))))))"

text \<open>\<open>metadata || {}\<close> on a validated value.\<close>

definition metadata_or_empty :: "json option \<Rightarrow> json" where
  "metadata_or_empty m = (case m of None \<Rightarrow> JObj [] | Some x \<Rightarrow> x)"

subsection \<open>Agent beacon\<close>

text \<open>
  The upsert: \<open>INSERT INTO agents (agent_id, hostname, platform, version, ip_address,
  metadata, first_seen, last_seen) ... ON CONFLICT (agent_id) DO UPDATE SET
  hostname, platform, version, ip_address, metadata = EXCLUDED's, last_seen =
  CURRENT_TIMESTAMP, is_active = TRUE\<close>.
\<close>

definition upsert_agent ::
  "string \<Rightarrow> string option \<Rightarrow> string option \<Rightarrow> string option \<Rightarrow> string \<Rightarrow> json \<Rightarrow>
   nat \<Rightarrow> nat \<Rightarrow> db \<Rightarrow> pg_error + (unit \<times> db)" where
  "upsert_agent agent_id hostname platform version ip_address metadata now u d =
     (case (pg_varchar 255 agent_id, pg_varchar_opt 255 hostname,
            pg_varchar_opt 100 platform, pg_varchar_opt 50 version) of
        (Some a, Some h, Some p, Some v) \<Rightarrow>
          if a \<in> set (map ag_agent_id (agents d))
          then Inr ((), d\<lparr>agents :=
                 map (\<lambda>r. if ag_agent_id r = a
                           then r\<lparr>ag_hostname := h, ag_platform := p, ag_version := v,
                                  ag_ip_address := ip_address, ag_metadata := metadata,
                                  ag_last_seen := now, ag_is_active := True\<rparr>
                           else r) (agents d)\<rparr>)
          else if u \<in> set (map ag_id (agents d)) then Inl ConstraintViolation
          else Inr ((), d\<lparr>agents := agents d @
                 [\<lparr>ag_id = u, ag_agent_id = a, ag_hostname = h, ag_platform = p,
                   ag_ip_address = ip_address, ag_version = v, ag_first_seen = now,
                   ag_last_seen = now, ag_is_active = True, ag_metadata = metadata\<rparr>]\<rparr>)
      | _ \<Rightarrow> Inl InvalidInput)"

text \<open>
  \<open>INSERT INTO beacons (agent_id, ip_address, metadata)\<close>, with the foreign key to
  \<open>agents(agent_id)\<close> and the trigger \<open>update_agent_last_seen\<close> that runs after the
  insert.
\<close>

definition update_agent_last_seen :: "beacon \<Rightarrow> agent list \<Rightarrow> agent list" where
  "update_agent_last_seen new =
     map (\<lambda>r. if ag_agent_id r = bc_agent_id new
               then r\<lparr>ag_last_seen := bc_timestamp new, ag_is_active := True\<rparr>
               else r)"

definition insert_beacon ::
  "string \<Rightarrow> string \<Rightarrow> json \<Rightarrow> nat \<Rightarrow> nat \<Rightarrow> db \<Rightarrow> pg_error + (unit \<times> db)" where
  "insert_beacon agent_id ip_address metadata now u d =
     (case pg_varchar 255 agent_id of
        None \<Rightarrow> Inl InvalidInput
      | Some a \<Rightarrow>
          if a \<notin> set (map ag_agent_id (agents d)) \<or> u \<in> set (map bc_id (beacons d))
          then Inl ConstraintViolation
          else let new = \<lparr>bc_id = u, bc_agent_id = a, bc_timestamp = now,
                          bc_ip_address = ip_address, bc_status = ''active'',
                          bc_metadata = metadata\<rparr>
               in Inr ((), d\<lparr>beacons := beacons d @ [new],
                             agents := update_agent_last_seen new (agents d)\<rparr>))"

definition beacon_handler :: "lib \<Rightarrow> env \<Rightarrow> world \<Rightarrow> request \<Rightarrow> response \<times> world" where
  "beacon_handler L E w req =
     (case validate_beacon L (body req) of
        Inl e \<Rightarrow> (reply 400 (Error (joi_message e)), w)
      | Inr v \<Rightarrow>
          (case pool_query E
                  (upsert_agent (bv_agent_id v) (bv_hostname v) (bv_platform v) (bv_version v)
                     (ip req) (metadata_or_empty (bv_metadata v))) w of
             (Inl e, w1) \<Rightarrow> (reply 500 (Error ''Beacon failed''), w1)
           | (Inr u1, w1) \<Rightarrow>
               (case pool_query E
                       (insert_beacon (bv_agent_id v) (ip req)
                          (metadata_or_empty (bv_metadata v))) w1 of
                  (Inl e, w2) \<Rightarrow> (reply 500 (Error ''Beacon failed''), w2)
                | (Inr u2, w2) \<Rightarrow> (reply 200 (BeaconAck (bv_agent_id v) (date_now E)), w2))))"

subsection \<open>Result submission\<close>

text \<open>\<open>INSERT INTO results (agent_id, module, target, result_type, data, severity,
  metadata) ... RETURNING id, timestamp\<close>, with the foreign key to \<open>agents(agent_id)\<close>.\<close>

definition insert_result :: "result_value \<Rightarrow> nat \<Rightarrow> nat \<Rightarrow> db \<Rightarrow> pg_error + ((nat \<times> nat) \<times> db)" where
  "insert_result v now u d =
     (case (pg_varchar 255 (rv_agent_id v), pg_varchar 100 (rv_module v),
            pg_varchar_opt 500 (rv_target v), pg_varchar_opt 100 (rv_result_type v),
            pg_varchar_opt 50 (rv_severity v)) of
        (Some a, Some m, Some t, Some rt, Some s) \<Rightarrow>
          if a \<notin> set (map ag_agent_id (agents d)) \<or> u \<in> set (map rs_id (results d))
          then Inl ConstraintViolation
          else Inr ((u, now), d\<lparr>results := results d @
                 [\<lparr>rs_id = u, rs_agent_id = a, rs_module = m, rs_target = t,
                   rs_result_type = rt, rs_data = rv_data v, rs_timestamp = now,
                   rs_severity = s, rs_metadata = metadata_or_empty (rv_metadata v)\<rparr>]\<rparr>)
      | _ \<Rightarrow> Inl InvalidInput)"

definition submit_handler :: "lib \<Rightarrow> env \<Rightarrow> world \<Rightarrow> request \<Rightarrow> response \<times> world" where
  "submit_handler L E w req =
     (case validate_result L (body req) of
        Inl e \<Rightarrow> (reply 400 (Error (joi_message e)), w)
      | Inr v \<Rightarrow>
          (case pool_query E (insert_result v) w of
             (Inl e, w1) \<Rightarrow> (reply 500 (Error ''Failed to submit result''), w1)
           | (Inr (i, t), w1) \<Rightarrow> (reply 201 (ResultAck i t), w1)))"

subsection \<open>Result query\<close>

text \<open>
  A JavaScript number that \<open>parseInt\<close> can return: \<open>NaN\<close>, an infinity, or a double
  whose value is an integer, held as that integer (\<open>-0\<close> as \<open>0\<close>: both print as \<open>0\<close>).
\<close>

datatype number = NaN | Infinity | NegInfinity | Number int

text \<open>The double nearest to an integer that is not negative, ties to the even
  significand of 53 bits; a result of \<open>2^1024\<close> or more stands for overflow.\<close>

function bitlen :: "int \<Rightarrow> nat" where
  "bitlen n = (if n \<le> 0 then 0 else Suc (bitlen (n div 2)))"
  by pat_completeness auto
termination
  by (relation "measure nat") auto

declare bitlen.simps [simp del]

definition round_double :: "int \<Rightarrow> int" where
  "round_double a =
     (let e = bitlen a - 53;
          q = a div 2 ^ e;
          r = a mod 2 ^ e;
          m = (if 2 ^ e < 2 * r \<or> (2 * r = 2 ^ e \<and> odd q) then q + 1 else q)
      in m * 2 ^ e)"

text \<open>
  \<open>parseInt(s, 10)\<close>: leading white space (in this range of characters: tab, line
  feed, vertical tab, form feed, carriage return, space, no-break space), a
  sign, then the longest run of decimal digits; without a digit the result is
  \<open>NaN\<close>, otherwise the double nearest to the integer the digits denote.
\<close>

definition is_space :: "char \<Rightarrow> bool" where
  "is_space c =
     (c \<in> set [CHR 0x09, CHR 0x0A, CHR 0x0B, CHR 0x0C, CHR 0x0D, CHR '' '', CHR 0xA0])"

definition is_digit :: "char \<Rightarrow> bool" where
  "is_digit c = ((48::nat) \<le> of_char c \<and> (of_char c :: nat) \<le> 57)"

definition digits_value :: "string \<Rightarrow> int" where
  "digits_value ds = foldl (\<lambda>n c. 10 * n + (of_char c - 48)) 0 ds"

definition parseInt :: "string \<Rightarrow> number" where
  "parseInt s =
     (let t = dropWhile is_space s;
          neg = (case t of c # r \<Rightarrow> c = CHR ''-'' | [] \<Rightarrow> False);
          u = (case t of c # r \<Rightarrow> if c = CHR ''-'' \<or> c = CHR ''+'' then r else t | [] \<Rightarrow> []);
          ds = takeWhile is_digit u
      in if ds = [] then NaN
         else let d = round_double (digits_value ds)
              in if 2 ^ 1024 \<le> d then (if neg then NegInfinity else Infinity)
                 else Number (if neg then - d else d))"

text \<open>
  How a number is written, by \<open>toString\<close> for a query parameter and by
  \<open>JSON.stringify\<close> in a response: of the decimals with the fewest significant
  digits that read back as the same double, the closest one (the even one of
  two), here as the integer it denotes. From \<open>10^21\<close> on the text is in exponent
  notation.
\<close>

function numdigits :: "int \<Rightarrow> nat" where
  "numdigits n = (if n < 10 then 1 else Suc (numdigits (n div 10)))"
  by pat_completeness auto
termination
  by (relation "measure nat") auto

declare numdigits.simps [simp del]

definition candidate :: "int \<Rightarrow> int \<Rightarrow> int option" where
  "candidate d u =
     (let lo = (d div u) * u;
          hi = lo + u;
          low = (round_double lo = d);
          high = (round_double hi = d)
      in if low \<and> high
         then Some (if d - lo < hi - d then lo
                    else if hi - d < d - lo then hi
                    else if even (d div u) then lo else hi)
         else if low then Some lo
         else if high then Some hi
         else None)"

fun shortest_from :: "int \<Rightarrow> nat \<Rightarrow> int" where
  "shortest_from d 0 = d"
| "shortest_from d (Suc j) =
     (case candidate d (10 ^ Suc j) of Some c \<Rightarrow> c | None \<Rightarrow> shortest_from d j)"

definition shortest :: "int \<Rightarrow> int" where
  "shortest d = shortest_from d (numdigits d - 1)"

definition printed :: "int \<Rightarrow> int" where
  "printed d = (if d < 0 then - shortest (- d) else shortest d)"

definition number_json :: "number \<Rightarrow> json" where
  "number_json v = (case v of Number d \<Rightarrow> JNum (printed d) | _ \<Rightarrow> JNull)"

text \<open>A natural number written in decimal, as \<open>String(n)\<close> writes a count.\<close>

definition digit_char :: "nat \<Rightarrow> char" where
  "digit_char n = char_of (48 + n)"

fun decimal :: "nat \<Rightarrow> string" where
  "decimal n = (if n < 10 then [digit_char n] else decimal (n div 10) @ [digit_char (n mod 10)])"

declare decimal.simps [simp del]

text \<open>\<open>ORDER BY key DESC\<close>: rows with equal keys stay in the order they had.\<close>

fun insert_desc :: "('a \<Rightarrow> nat) \<Rightarrow> 'a \<Rightarrow> 'a list \<Rightarrow> 'a list" where
  "insert_desc f x [] = [x]"
| "insert_desc f x (y # ys) = (if f y \<le> f x then x # y # ys else y # insert_desc f x ys)"

definition order_by_desc :: "('a \<Rightarrow> nat) \<Rightarrow> 'a list \<Rightarrow> 'a list" where
  "order_by_desc f xs = foldr (insert_desc f) xs []"

text \<open>
  A \<open>LIMIT\<close> or \<open>OFFSET\<close> parameter: the driver sends the number as it is written,
  PostgreSQL reads a \<open>bigint\<close> and rejects \<open>NaN\<close>, an infinity, exponent notation,
  a negative count and a count beyond the type.
\<close>

definition pg_count :: "number \<Rightarrow> nat option" where
  "pg_count v =
     (case v of
        Number d \<Rightarrow>
          if 0 \<le> d \<and> d < 10 ^ 21 \<and> printed d \<le> 9223372036854775807
          then Some (nat (printed d)) else None
      | _ \<Rightarrow> None)"

text \<open>
  The statement the handler builds: \<open>SELECT * FROM results WHERE 1=1\<close>, then
  \<open>AND agent_id = $n\<close>, \<open>AND module = $n\<close>, \<open>AND severity = $n\<close>, \<open>AND timestamp >= $n\<close>
  for each parameter that is truthy, \<open>ORDER BY timestamp DESC LIMIT $n OFFSET $n\<close>.
\<close>

definition since_param :: "lib \<Rightarrow> string option \<Rightarrow> nat option option" where
  "since_param L since =
     (if truthy since
      then map_option Some (timestamptz_in L (case since of Some s \<Rightarrow> s | None \<Rightarrow> []))
      else Some None)"

definition where_clause ::
  "string option \<Rightarrow> string option \<Rightarrow> string option \<Rightarrow> nat option \<Rightarrow> result \<Rightarrow> bool" where
  "where_clause agent_id module severity since r =
     ((if truthy agent_id then Some (rs_agent_id r) = agent_id else True)
      \<and> (if truthy module then Some (rs_module r) = module else True)
      \<and> (if truthy severity then rs_severity r = severity else True)
      \<and> (case since of Some t \<Rightarrow> t \<le> rs_timestamp r | None \<Rightarrow> True))"

definition select_results ::
  "lib \<Rightarrow> string option \<Rightarrow> string option \<Rightarrow> string option \<Rightarrow> string option \<Rightarrow>
   number \<Rightarrow> number \<Rightarrow> nat \<Rightarrow> nat \<Rightarrow> db \<Rightarrow> pg_error + (result list \<times> db)" where
  "select_results L agent_id module severity since limit offset now u d =
     (case (since_param L since, pg_count limit, pg_count offset) of
        (Some t, Some lim, Some off) \<Rightarrow>
          Inr (take lim (drop off (order_by_desc rs_timestamp
                 (filter (where_clause agent_id module severity t) (results d)))), d)
      | _ \<Rightarrow> Inl InvalidInput)"

definition query_handler :: "lib \<Rightarrow> env \<Rightarrow> world \<Rightarrow> request \<Rightarrow> response \<times> world" where
  "query_handler L E w req =
     (let agent_id = query req ''agent_id'';
          module = query req ''module'';
          severity = query req ''severity'';
          limit = (case query req ''limit'' of None \<Rightarrow> ''100'' | Some s \<Rightarrow> s);
          offset = (case query req ''offset'' of None \<Rightarrow> ''0'' | Some s \<Rightarrow> s);
          since = query req ''since''
      in case pool_query E
                (select_results L agent_id module severity since (parseInt limit) (parseInt offset)) w of
           (Inl e, w1) \<Rightarrow> (reply 500 (Error ''Failed to query results''), w1)
         | (Inr rows, w1) \<Rightarrow>
             (reply 200 (ResultPage rows (length rows) (number_json (parseInt limit))
                           (number_json (parseInt offset))), w1))"

subsection \<open>Agent listing\<close>



subsection \<open>Rate limiter and the chain of a protected route\<close>

text \<open>
  \<open>express-rate-limit\<close> as configured: a window of 60000 ms, \<open>max\<close> requests per
  client address, counters in Redis. A hit that Redis counts sets the three
  headers of \<open>standardHeaders\<close> (the maximum, the remaining count, never below zero,
  and the seconds to the end of the window, rounded up) and the further headers
  of the installed release; beyond the maximum the answer is 429 with the
  configured message. A rejected Redis command goes to the application's error
  handler; one that is never answered leaves the request open.
\<close>

definition limiter ::
  "lib \<Rightarrow> nat \<Rightarrow> env \<Rightarrow> world \<Rightarrow> request \<Rightarrow> (string \<times> string) list step \<times> world" where
  "limiter L maxhits E w req =
     (case redis E of
        Unanswered \<Rightarrow> (Pending, w)
      | Failed \<Rightarrow> (Respond (reply 500 (Error ''Internal server error'')), w)
      | Counted \<Rightarrow>
          (let now = date_now E;
               cur = (case hits w (ip req) of
                        None \<Rightarrow> (1, now + 60000)
                      | Some (n, reset) \<Rightarrow> if now < reset then (Suc n, reset) else (1, now + 60000));
               w' = w\<lparr>hits := (hits w)(ip req \<mapsto> cur)\<rparr>;
               seconds = (snd cur - now + 999) div 1000;
               over = (if maxhits = 0 then zero_limit_blocks L else maxhits < fst cur);
               hs = [(''RateLimit-Limit'', decimal maxhits),
                     (''RateLimit-Remaining'', decimal (maxhits - fst cur)),
                     (''RateLimit-Reset'', decimal seconds)]
                    @ further_headers L maxhits seconds over
           in if over
              then (Respond \<lparr>status = 429, rate_headers = hs,
                             payload = Error ''Too many requests, please try again later''\<rparr>, w')
              else (Next hs, w')))"

definition protected ::
  "lib \<Rightarrow> nat \<Rightarrow> (lib \<Rightarrow> env \<Rightarrow> world \<Rightarrow> request \<Rightarrow> response \<times> world) \<Rightarrow>
   env \<Rightarrow> world \<Rightarrow> request \<Rightarrow> response option \<times> world" where
  "protected L maxhits handler E w req =
     (case limiter L maxhits E w req of
        (Pending, w1) \<Rightarrow> (None, w1)
      | (Respond r, w1) \<Rightarrow> (Some r, w1)
      | (Next hs, w1) \<Rightarrow>
          (case authenticateApiKey L E w1 req of
             (Pending, w2) \<Rightarrow> (None, w2)
           | (Respond r, w2) \<Rightarrow> (Some (r\<lparr>rate_headers := hs\<rparr>), w2)
           | (Next validKey, w2) \<Rightarrow>
               (case handler L E w2 req of (r, w3) \<Rightarrow> (Some (r\<lparr>rate_headers := hs\<rparr>), w3))))"

subsection \<open>A small instance\<close>

text \<open>
  A stand-in for the libraries (a hash that is the salt, a dollar sign and the
  data; a timestamp input that reads a decimal number; the further headers of a
  recent \<open>express-rate-limit\<close>), surroundings in which every call completes, and
  an empty state.
\<close>

definition sample_lib :: lib where
  "sample_lib =
     \<lparr>bcrypt_hash = (\<lambda>data rounds salt. salt @ ''$'' @ data),
      bcrypt_compare = (\<lambda>data h. h \<noteq> [] \<and> tl (dropWhile (\<lambda>c. c \<noteq> CHR ''$'') h) = data),
      json_parse = (\<lambda>s. None),
      timestamptz_in = (\<lambda>s. if s \<noteq> [] \<and> list_all is_digit s then Some (nat (digits_value s)) else None),
      further_headers = (\<lambda>maxhits seconds over.
         (''RateLimit-Policy'', decimal maxhits @ '';w=60'')
           # (if over then [(''Retry-After'', decimal seconds)] else [])),
      zero_limit_blocks = True\<rparr>"

definition sample_env :: env where
  "sample_env =
     \<lparr>completes = (\<lambda>n. True), db_now = (\<lambda>n. 1000 + n), uuid = (\<lambda>n. n),
      redis = Counted, date_now = 5000\<rparr>"

definition empty_world :: world where
  "empty_world =
     \<lparr>store = \<lparr>api_keys = [], agents = [], beacons = [], results = []\<rparr>,
      calls = 0, compares = 0, hits = (\<lambda>k. None)\<rparr>"

definition sample_request :: request where
  "sample_request =
     \<lparr>headers = (\<lambda>k. None), ip = ''10.0.0.7'', body = JObj [], query = (\<lambda>k. None)\<rparr>"

text \<open>A key as the generator provisions it, and a request that presents it.\<close>

definition sample_rand :: "8 word list" where
  "sample_rand = replicate 32 0xAB"

definition sample_key :: string where
  "sample_key = ''hbv_abababababababababababababababababababababababababababababababab''"

definition provisioned_world :: world where
  "provisioned_world =
     snd (generateApiKey sample_lib sample_env empty_world (Some ''Primary'') sample_rand ''salt'')"

definition key_request :: request where
  "key_request =
     sample_request\<lparr>headers := (\<lambda>k. if k = ''x-api-key'' then Some sample_key else None)\<rparr>"

text \<open>Two beacons of one agent with different attributes.\<close>

definition first_beacon :: request where
  "first_beacon =
     sample_request\<lparr>body := JObj [(''agent_id'', JStr ''a1''), (''hostname'', JStr ''alpha''),
        (''metadata'', JObj [(''os'', JStr ''linux''), (''zone'', JStr ''dmz'')])]\<rparr>"

definition second_beacon :: request where
  "second_beacon =
     sample_request\<lparr>ip := ''10.0.0.9'',
        body := JObj [(''agent_id'', JStr ''a1''), (''platform'', JStr ''win''),
        (''metadata'', JObj [(''os'', JStr ''windows'')])]\<rparr>"

definition after_first :: world where
  "after_first = snd (beacon_handler sample_lib sample_env empty_world first_beacon)"

definition after_second :: world where
  "after_second = snd (beacon_handler sample_lib sample_env after_first second_beacon)"

text \<open>A result store with three findings, and a registry with an active and an
  inactive agent.\<close>

definition finding :: "nat \<Rightarrow> nat \<Rightarrow> string \<Rightarrow> result" where
  "finding i t sev =
     \<lparr>rs_id = i, rs_agent_id = ''a1'', rs_module = ''port-scan'', rs_target = None,
      rs_result_type = None, rs_data = JObj [(''ports'', JArr [JNum 80, JNum 443])],
      rs_timestamp = t, rs_severity = Some sev, rs_metadata = JObj []\<rparr>"

definition known_agent :: "nat \<Rightarrow> string \<Rightarrow> nat \<Rightarrow> bool \<Rightarrow> agent" where
  "known_agent i a t act =
     \<lparr>ag_id = i, ag_agent_id = a, ag_hostname = None, ag_platform = None,
      ag_ip_address = ''10.0.0.7'', ag_version = None, ag_first_seen = 1, ag_last_seen = t,
      ag_is_active = act, ag_metadata = JObj []\<rparr>"

definition filled_world :: world where
  "filled_world =
     empty_world\<lparr>store :=
       \<lparr>api_keys = [],
        agents = [known_agent 1 ''a1'' 40 True, known_agent 2 ''a2'' 70 False],
        beacons = [],
        results = [finding 1 10 ''high'', finding 2 30 ''low'', finding 3 20 ''high'']\<rparr>\<rparr>"

definition with_query :: "string \<Rightarrow> string \<Rightarrow> request" where
  "with_query k v = sample_request\<lparr>query := (\<lambda>x. if x = k then Some v else None)\<rparr>"



text \<open>A client that has used up a limit of one request in the current window.\<close>

definition limited_world :: world where
  "limited_world = empty_world\<lparr>hits := (\<lambda>k. if k = ''10.0.0.7'' then Some (1, 60000) else None)\<rparr>"

subsection \<open>Notions used in the statements\<close>


text \<open>The rows of \<open>xs\<close> are still there in \<open>ys\<close>, in place, each with its
  identifier and its \<open>first_seen\<close>.\<close>

definition first_seen_kept :: "agent list \<Rightarrow> agent list \<Rightarrow> bool" where
  "first_seen_kept xs ys = (map (\<lambda>a. (ag_agent_id a, ag_first_seen a)) (take (length xs) ys)
                 = map (\<lambda>a. (ag_agent_id a, ag_first_seen a)) xs)"

section \<open>Properties\<close>

subsection \<open>Numbers\<close>

























subsection \<open>Authentication\<close>

lemma truthy_Some [simp]: "truthy (Some s) = (s \<noteq> [])"
  by (simp add: truthy_def)

lemma truthy_None [simp]: "\<not> truthy None"
  by (simp add: truthy_def)

text \<open>The select list of the middleware's query has no \<open>key_hash\<close>, so every row
  it gets is compared against the empty string.\<close>

lemma no_key_hash_selected:
  "key_hash_or_empty (select_cols [''id'', ''name'', ''is_active''] (api_key_row k)) = []"
  by (simp add: key_hash_or_empty_def select_cols_def api_key_row_def)

lemma scan_keys_no_match:
  "\<not> bcrypt_compare L k [] \<Longrightarrow> list_all (\<lambda>r. key_hash_or_empty r = []) rows \<Longrightarrow>
   scan_keys L k rows = (None, length rows)"
  by (induction rows) auto

lemma select_active_keys_rows:
  "select_active_keys now u d = Inr (rows, d') \<Longrightarrow> list_all (\<lambda>r. key_hash_or_empty r = []) rows \<and> d' = d"
  by (auto simp: select_active_keys_def list_all_iff no_key_hash_selected)

lemma generateApiKey_Printed:
  "generateApiKey L E w name rand salt = (Printed k, w1) \<Longrightarrow> k = ''hbv_'' @ to_hex rand"
  by (auto simp: generateApiKey_def Let_def split: if_splits prod.splits sum.splits)

lemma no_credentials:
  assumes "headers req ''x-api-key'' = None" and "headers req ''authorization'' = None"
  shows "authenticateApiKey L E w req = (Respond (reply 401 (Error ''API key required'')), w)"
  using assms by (simp add: authenticateApiKey_def presented_key_def js_or_def)

lemma touch_and_next_expand:
  "touch_and_next E w validKey =
     (if completes E (calls w)
      then (Next validKey,
            w\<lparr>calls := Suc (calls w),
              store := (store w)\<lparr>api_keys :=
                map (\<lambda>k. if map_of validKey ''id'' = Some (SInt (key_id k))
                         then k\<lparr>key_last_used_at := Some (db_now E (calls w))\<rparr> else k)
                    (api_keys (store w))\<rparr>\<rparr>)
      else (Respond (reply 500 (Error ''Authentication failed'')), w\<lparr>calls := Suc (calls w)\<rparr>))"
  by (simp add: touch_and_next_def pool_query_def touch_last_used_def Let_def)

lemma touch_and_next_Respond:
  "touch_and_next E w validKey = (Respond r, w') \<Longrightarrow>
   r = reply 500 (Error ''Authentication failed'')"
  by (simp add: touch_and_next_expand split: if_splits)

lemma authenticateApiKey_Respond:
  assumes "authenticateApiKey L E w req = (Respond r, w')"
  shows "r = reply 401 (Error ''API key required'') \<or> r = reply 401 (Error ''Invalid API key'')
       \<or> r = reply 500 (Error ''Authentication failed'')"
proof (cases "truthy (presented_key req)")
  case False
  with assms show ?thesis by (simp add: authenticateApiKey_def)
next
  case t: True
  obtain q w1 where q: "pool_query E select_active_keys w = (q, w1)"
    by (cases "pool_query E select_active_keys w")
  show ?thesis
  proof (cases q)
    case (Inl e)
    with assms t q show ?thesis by (simp add: authenticateApiKey_def)
  next
    case (Inr rows)
    obtain v n where s: "scan_keys L (case presented_key req of Some k \<Rightarrow> k | None \<Rightarrow> []) rows = (v, n)"
      by (cases "scan_keys L (case presented_key req of Some k \<Rightarrow> k | None \<Rightarrow> []) rows")
    show ?thesis
    proof (cases v)
      case None
      with assms t q Inr s show ?thesis by (simp add: authenticateApiKey_def)
    next
      case (Some k)
      with assms t q Inr s have "touch_and_next E (w1\<lparr>compares := compares w1 + n\<rparr>) k = (Respond r, w')"
        by (simp add: authenticateApiKey_def)
      then show ?thesis by (simp add: touch_and_next_Respond)
    qed
  qed
qed

text \<open>
  Claim C1 says that a secret provisioned by the key generator (hashed with
  bcrypt, stored active) authenticates when it is presented, and that a variant
  of it does not. The code does otherwise for the secret itself: whenever
  \<open>bcrypt.compare\<close> rejects the empty string as a hash of the presented key, the
  key that \<open>generateApiKey\<close> has just stored and printed is answered with 401
  \<open>Invalid API key\<close>, after one comparison per active row.
\<close>

theorem provisioned_key_is_rejected:
  assumes "\<not> bcrypt_compare L apiKey []"
    and "generateApiKey L E w name rand salt = (Printed apiKey, w1)"
    and "headers req ''x-api-key'' = Some apiKey"
    and "completes E' (calls w1)"
  shows "authenticateApiKey L E' w1 req =
           (Respond (reply 401 (Error ''Invalid API key'')),
            w1\<lparr>calls := Suc (calls w1),
               compares := compares w1 + length (filter key_is_active (api_keys (store w1)))\<rparr>)"
proof -
  have k: "apiKey = ''hbv_'' @ to_hex rand"
    using assms(2) by (rule generateApiKey_Printed)
  then have p: "presented_key req = Some apiKey" "apiKey \<noteq> []"
    using assms(3) by (simp_all add: presented_key_def js_or_def)
  obtain rows where r: "select_active_keys (db_now E' (calls w1)) (uuid E' (calls w1)) (store w1) = Inr (rows, store w1)"
    and l: "length rows = length (filter key_is_active (api_keys (store w1)))"
    by (simp add: select_active_keys_def)
  have "list_all (\<lambda>r. key_hash_or_empty r = []) rows"
    using r by (auto dest: select_active_keys_rows)
  then have s: "scan_keys L apiKey rows = (None, length rows)"
    using assms(1) by (simp add: scan_keys_no_match)
  show ?thesis
    using p r s l assms(4)
    by (simp add: authenticateApiKey_def pool_query_def Let_def)
qed

theorem provisioned_key_is_rejected_witness:
  "\<not> bcrypt_compare sample_lib sample_key []
   \<and> generateApiKey sample_lib sample_env empty_world (Some ''Primary'') sample_rand ''salt''
       = (Printed sample_key, provisioned_world)
   \<and> map (\<lambda>k. (key_is_active k, bcrypt_compare sample_lib sample_key (key_hash k)))
         (api_keys (store provisioned_world)) = [(True, True)]
   \<and> headers key_request ''x-api-key'' = Some sample_key
   \<and> fst (authenticateApiKey sample_lib sample_env provisioned_world key_request)
       = Respond (reply 401 (Error ''Invalid API key''))"
proof -
  have a: "\<not> bcrypt_compare sample_lib sample_key []"
    by (simp add: sample_lib_def)
  have "fst (generateApiKey sample_lib sample_env empty_world (Some ''Primary'') sample_rand ''salt'')
        = Printed sample_key"
    by code_simp
  then have b: "generateApiKey sample_lib sample_env empty_world (Some ''Primary'') sample_rand ''salt''
       = (Printed sample_key, provisioned_world)"
    by (simp add: provisioned_world_def prod_eq_iff)
  have c: "headers key_request ''x-api-key'' = Some sample_key"
    by (simp add: key_request_def)
  have d: "completes sample_env (calls provisioned_world)"
    by (simp add: sample_env_def)
  have e: "map (\<lambda>k. (key_is_active k, bcrypt_compare sample_lib sample_key (key_hash k)))
         (api_keys (store provisioned_world)) = [(True, True)]"
    by code_simp
  from provisioned_key_is_rejected[OF a b c d] a b c e show ?thesis
    by simp
qed

text \<open>
  Claim C2: a request that carries neither the \<open>X-API-Key\<close> header nor an
  \<open>Authorization\<close> header is answered with 401 \<open>API key required\<close>, and the state is
  as before: no \<open>pool.query\<close> was issued (no read of the credential store) and no
  \<open>bcrypt.compare\<close> was made.
\<close>

theorem authenticateApiKey_no_credentials:
  assumes "headers req ''x-api-key'' = None" and "headers req ''authorization'' = None"
  shows "authenticateApiKey L E w req = (Respond (reply 401 (Error ''API key required'')), w)
       \<and> calls (snd (authenticateApiKey L E w req)) = calls w
       \<and> compares (snd (authenticateApiKey L E w req)) = compares w"
  using no_credentials[OF assms] by simp

theorem authenticateApiKey_no_credentials_witness:
  "headers sample_request ''x-api-key'' = None \<and> headers sample_request ''authorization'' = None
   \<and> authenticateApiKey sample_lib sample_env empty_world sample_request
       = (Respond (reply 401 (Error ''API key required'')), empty_world)
   \<and> calls (snd (authenticateApiKey sample_lib sample_env empty_world sample_request)) = 0
   \<and> compares (snd (authenticateApiKey sample_lib sample_env empty_world sample_request)) = 0"
proof -
  have a: "headers sample_request ''x-api-key'' = None"
    and b: "headers sample_request ''authorization'' = None"
    by (simp_all add: sample_request_def)
  from authenticateApiKey_no_credentials[OF a b, of sample_lib sample_env empty_world] a b
  show ?thesis by (simp add: empty_world_def)
qed

subsection \<open>Beacon\<close>




lemma upsert_agent_Inr:
  assumes "upsert_agent agent_id hostname platform version ip_address metadata now u d = Inr (x, d')"
  shows "\<exists>a h p v. pg_varchar 255 agent_id = Some a \<and> pg_varchar_opt 255 hostname = Some h \<and>
           pg_varchar_opt 100 platform = Some p \<and> pg_varchar_opt 50 version = Some v \<and>
           d' = d\<lparr>agents :=
             (if a \<in> set (map ag_agent_id (agents d))
              then map (\<lambda>r. if ag_agent_id r = a
                           then r\<lparr>ag_hostname := h, ag_platform := p, ag_version := v,
                                  ag_ip_address := ip_address, ag_metadata := metadata,
                                  ag_last_seen := now, ag_is_active := True\<rparr>
                           else r) (agents d)
              else agents d @
                 [\<lparr>ag_id = u, ag_agent_id = a, ag_hostname = h, ag_platform = p,
                   ag_ip_address = ip_address, ag_version = v, ag_first_seen = now,
                   ag_last_seen = now, ag_is_active = True, ag_metadata = metadata\<rparr>])\<rparr>"
  using assms unfolding upsert_agent_def
  by (cases "pg_varchar 255 agent_id"; cases "pg_varchar_opt 255 hostname";
      cases "pg_varchar_opt 100 platform"; cases "pg_varchar_opt 50 version")
     (auto split: if_splits)

lemma insert_beacon_Inr:
  assumes "insert_beacon agent_id ip_address metadata now u d = Inr (x, d')"
  shows "\<exists>a. pg_varchar 255 agent_id = Some a \<and> a \<in> set (map ag_agent_id (agents d)) \<and>
           agents d' = map (\<lambda>r. if ag_agent_id r = a
               then r\<lparr>ag_last_seen := now, ag_is_active := True\<rparr> else r) (agents d)"
  using assms unfolding insert_beacon_def update_agent_last_seen_def
  by (cases "pg_varchar 255 agent_id") (auto split: if_splits simp: Let_def)

lemma beacon_handler_expand:
  "beacon_handler L E w req =
     (case validate_beacon L (body req) of
        Inl e \<Rightarrow> (reply 400 (Error (joi_message e)), w)
      | Inr v \<Rightarrow>
          if \<not> completes E (calls w) then (reply 500 (Error ''Beacon failed''), w\<lparr>calls := Suc (calls w)\<rparr>)
          else (case upsert_agent (bv_agent_id v) (bv_hostname v) (bv_platform v) (bv_version v) (ip req)
                       (metadata_or_empty (bv_metadata v)) (db_now E (calls w)) (uuid E (calls w)) (store w) of
                  Inl e \<Rightarrow> (reply 500 (Error ''Beacon failed''), w\<lparr>calls := Suc (calls w)\<rparr>)
                | Inr (x, d1) \<Rightarrow>
                    if \<not> completes E (Suc (calls w))
                    then (reply 500 (Error ''Beacon failed''), w\<lparr>calls := Suc (Suc (calls w)), store := d1\<rparr>)
                    else (case insert_beacon (bv_agent_id v) (ip req) (metadata_or_empty (bv_metadata v))
                                 (db_now E (Suc (calls w))) (uuid E (Suc (calls w))) d1 of
                            Inl e \<Rightarrow> (reply 500 (Error ''Beacon failed''), w\<lparr>calls := Suc (Suc (calls w)), store := d1\<rparr>)
                          | Inr (y, d2) \<Rightarrow> (reply 200 (BeaconAck (bv_agent_id v) (date_now E)),
                                            w\<lparr>calls := Suc (Suc (calls w)), store := d2\<rparr>))))"
  unfolding beacon_handler_def pool_query_def Let_def
  by (simp split: sum.splits prod.splits)


lemma beacon_handler_rel:
  assumes h: "beacon_handler L E w req = (r, w')"
    and same: "R (store w)"
    and up: "\<And>a h p v i m now u x d1.
               upsert_agent a h p v i m now u (store w) = Inr (x, d1) \<Longrightarrow> R d1"
    and ins: "\<And>a h p v i m now u x d1 now' u' y d2.
               upsert_agent a h p v i m now u (store w) = Inr (x, d1) \<Longrightarrow>
               insert_beacon a i m now' u' d1 = Inr (y, d2) \<Longrightarrow> R d2"
  shows "R (store w')"
proof (cases "validate_beacon L (body req)")
  case (Inl e)
  with h have "store w' = store w" by (auto simp: beacon_handler_expand)
  with same show ?thesis by simp
next
  case v: (Inr v)
  show ?thesis
  proof (cases "completes E (calls w)")
    case False
    with v h have "store w' = store w" by (auto simp: beacon_handler_expand)
    with same show ?thesis by simp
  next
    case c1: True
    show ?thesis
    proof (cases "upsert_agent (bv_agent_id v) (bv_hostname v) (bv_platform v) (bv_version v) (ip req)
                       (metadata_or_empty (bv_metadata v)) (db_now E (calls w)) (uuid E (calls w)) (store w)")
      case (Inl e)
      with v c1 h have "store w' = store w" by (auto simp: beacon_handler_expand)
      with same show ?thesis by simp
    next
      case u: (Inr p)
      obtain x d1 where p: "p = (x, d1)" by (cases p)
      note u1 = u[unfolded p]
      show ?thesis
      proof (cases "completes E (Suc (calls w))")
        case False
        with v c1 u p h have "store w' = d1" by (auto simp: beacon_handler_expand)
        with up[OF u1] show ?thesis by simp
      next
        case c2: True
        show ?thesis
        proof (cases "insert_beacon (bv_agent_id v) (ip req) (metadata_or_empty (bv_metadata v))
                                 (db_now E (Suc (calls w))) (uuid E (Suc (calls w))) d1")
          case (Inl e)
          with v c1 c2 u p h have "store w' = d1" by (auto simp: beacon_handler_expand)
          with up[OF u1] show ?thesis by simp
        next
          case b: (Inr q)
          obtain y d2 where q: "q = (y, d2)" by (cases q)
          note b1 = b[unfolded q]
          from v c1 c2 u p b q h have "store w' = d2" by (auto simp: beacon_handler_expand)
          with ins[OF u1 b1] show ?thesis by simp
        qed
      qed
    qed
  qed
qed

lemma first_seen_kept_refl: "first_seen_kept xs xs"
  by (simp add: first_seen_kept_def)

lemma first_seen_kept_length:
  assumes "first_seen_kept xs ys"
  shows "length xs \<le> length ys"
proof -
  have "length (map (\<lambda>a. (ag_agent_id a, ag_first_seen a)) (take (length xs) ys))
      = length (map (\<lambda>a. (ag_agent_id a, ag_first_seen a)) xs)"
    using assms by (simp only: first_seen_kept_def)
  then show ?thesis by simp
qed

lemma first_seen_kept_trans: "first_seen_kept xs ys \<Longrightarrow> first_seen_kept ys zs \<Longrightarrow> first_seen_kept xs zs"
proof -
  assume a: "first_seen_kept xs ys" and b: "first_seen_kept ys zs"
  have l: "length xs \<le> length ys" using a by (rule first_seen_kept_length)
  have "map (\<lambda>a. (ag_agent_id a, ag_first_seen a)) (take (length xs) zs)
      = take (length xs) (map (\<lambda>a. (ag_agent_id a, ag_first_seen a)) (take (length ys) zs))"
    using l by (simp add: take_map min_def)
  also have "\<dots> = take (length xs) (map (\<lambda>a. (ag_agent_id a, ag_first_seen a)) ys)"
    using b by (simp add: first_seen_kept_def)
  also have "\<dots> = map (\<lambda>a. (ag_agent_id a, ag_first_seen a)) xs"
    using a by (simp add: first_seen_kept_def take_map)
  finally show ?thesis by (simp add: first_seen_kept_def)
qed

lemma first_seen_kept_map:
  assumes "\<And>x. ag_agent_id (g x) = ag_agent_id x" "\<And>x. ag_first_seen (g x) = ag_first_seen x"
  shows "first_seen_kept xs (map g xs)"
  by (simp add: first_seen_kept_def assms)

lemma first_seen_kept_append: "first_seen_kept xs (xs @ ys)"
  by (simp add: first_seen_kept_def)

lemma upsert_agent_first_seen_kept:
  assumes "upsert_agent a h p v i m now u d = Inr (x, d')"
  shows "first_seen_kept (agents d) (agents d')"
proof -
  from upsert_agent_Inr[OF assms] obtain g new where
    "agents d' = map g (agents d) \<or> agents d' = agents d @ [new]"
    and "\<And>r. ag_agent_id (g r) = ag_agent_id r" and "\<And>r. ag_first_seen (g r) = ag_first_seen r"
    by (cases "the (pg_varchar 255 a) \<in> set (map ag_agent_id (agents d))") fastforce+
  then show ?thesis using first_seen_kept_map first_seen_kept_append by metis
qed

lemma insert_beacon_first_seen_kept:
  assumes "insert_beacon a i m now u d = Inr (x, d')"
  shows "first_seen_kept (agents d) (agents d')"
proof -
  from insert_beacon_Inr[OF assms] obtain a' where
    "agents d' = map (\<lambda>r. if ag_agent_id r = a'
               then r\<lparr>ag_last_seen := now, ag_is_active := True\<rparr> else r) (agents d)"
    by blast
  then show ?thesis by (simp add: first_seen_kept_map)
qed








text \<open>
  Claim C9: a beacon leaves every agent that is in the registry in its place with
  its identifier and its \<open>first_seen\<close>, whatever the request and whatever becomes of
  it: neither the conflict branch of the upsert nor the trigger on \<open>beacons\<close> writes
  \<open>first_seen\<close>.
\<close>

theorem beacon_keeps_first_seen:
  "map (\<lambda>a. (ag_agent_id a, ag_first_seen a))
       (take (length (agents (store w))) (agents (store (snd (beacon_handler L E w req)))))
   = map (\<lambda>a. (ag_agent_id a, ag_first_seen a)) (agents (store w))"
proof -
  obtain r w' where h: "beacon_handler L E w req = (r, w')" by (cases "beacon_handler L E w req")
  have "first_seen_kept (agents (store w)) (agents (store w'))"
  proof (rule beacon_handler_rel[OF h, where R = "\<lambda>d. first_seen_kept (agents (store w)) (agents d)"])
    show "first_seen_kept (agents (store w)) (agents (store w))" by (rule first_seen_kept_refl)
  next
    fix a h p v i m now u x d1
    assume "upsert_agent a h p v i m now u (store w) = Inr (x, d1)"
    then show "first_seen_kept (agents (store w)) (agents d1)" by (rule upsert_agent_first_seen_kept)
  next
    fix a h p v i m now u x d1 now' u' y d2
    assume "upsert_agent a h p v i m now u (store w) = Inr (x, d1)"
      and "insert_beacon a i m now' u' d1 = Inr (y, d2)"
    then show "first_seen_kept (agents (store w)) (agents d2)"
      by (blast intro: first_seen_kept_trans upsert_agent_first_seen_kept insert_beacon_first_seen_kept)
  qed
  then show ?thesis using h by (simp add: first_seen_kept_def)
qed

theorem beacon_keeps_first_seen_witness:
  "map (\<lambda>a. (ag_agent_id a, ag_first_seen a)) (agents (store after_first)) = [(''a1'', 1000)]
   \<and> map (\<lambda>a. (ag_agent_id a, ag_first_seen a, ag_last_seen a)) (agents (store after_second))
       = [(''a1'', 1000, 1003)]
   \<and> map (\<lambda>a. (ag_agent_id a, ag_first_seen a))
         (take (length (agents (store after_first))) (agents (store after_second)))
       = map (\<lambda>a. (ag_agent_id a, ag_first_seen a)) (agents (store after_first))"
proof -
  have a: "map (\<lambda>a. (ag_agent_id a, ag_first_seen a)) (agents (store after_first)) = [(''a1'', 1000)]"
    by code_simp
  have b: "map (\<lambda>a. (ag_agent_id a, ag_first_seen a, ag_last_seen a)) (agents (store after_second))
       = [(''a1'', 1000, 1003)]"
    by code_simp
  from beacon_keeps_first_seen[of after_first sample_lib sample_env second_beacon] a b
  show ?thesis by (simp add: after_second_def)
qed

subsection \<open>Result submission\<close>

lemma sum_bind_Inr: "sum_bind x f = Inr y \<Longrightarrow> \<exists>a. x = Inr a \<and> f a = Inr y"
  unfolding sum_bind_def by (cases x) auto

lemma validate_result_Inr:
  assumes "validate_result L b = Inr v"
  shows "\<exists>kvs d. joi_object L ''value'' b = Inr kvs \<and>
           joi_object_required L ''data'' (map_of kvs ''data'') = Inr d"
proof -
  from assms obtain kvs where k: "joi_object L ''value'' b = Inr kvs"
    unfolding validate_result_def by (auto dest!: sum_bind_Inr)
  with assms obtain d where "joi_object_required L ''data'' (map_of kvs ''data'') = Inr d"
    unfolding validate_result_def by (auto dest!: sum_bind_Inr)
  with k show ?thesis by blast
qed

lemma joi_object_field:
  "joi_object L l b = Inr kvs \<Longrightarrow> \<not> is_string b \<Longrightarrow> body_field b k = map_of kvs k"
  unfolding joi_object_def is_string_def body_field_def by (cases b) auto

text \<open>
  Claim C4: a result submission whose body (an object or an array, as the body
  parsers deliver it) has no \<open>data\<close> field is answered by the handler with 400 and
  the message of a validation error, and the state is as before: no row is
  persisted, no statement is issued.
\<close>

theorem submit_without_data:
  assumes "body_field (body req) ''data'' = None" and "\<not> is_string (body req)"
  shows "\<exists>e. submit_handler L E w req = (reply 400 (Error (joi_message e)), w)"
proof (cases "validate_result L (body req)")
  case (Inl e)
  then show ?thesis by (auto simp: submit_handler_def)
next
  case (Inr v)
  then obtain kvs d where "joi_object L ''value'' (body req) = Inr kvs"
    "joi_object_required L ''data'' (map_of kvs ''data'') = Inr d"
    by (auto dest!: validate_result_Inr)
  with assms have False
    by (auto dest!: joi_object_field[where k = "''data''"] simp: joi_object_required_def)
  then show ?thesis ..
qed

theorem submit_without_data_witness:
  "body_field (JObj [(''agent_id'', JStr ''a1''), (''module'', JStr ''port-scan'')]) ''data'' = None
   \<and> \<not> is_string (JObj [(''agent_id'', JStr ''a1''), (''module'', JStr ''port-scan'')])
   \<and> (\<exists>e. submit_handler sample_lib sample_env after_first
              (sample_request\<lparr>body := JObj [(''agent_id'', JStr ''a1''), (''module'', JStr ''port-scan'')]\<rparr>)
            = (reply 400 (Error (joi_message e)), after_first))
   \<and> payload (fst (submit_handler sample_lib sample_env after_first
              (sample_request\<lparr>body := JObj [(''agent_id'', JStr ''a1''), (''module'', JStr ''port-scan'')]\<rparr>)))
       = Error (joi_message (AnyRequired ''data''))"
proof -
  let ?b = "JObj [(''agent_id'', JStr ''a1''), (''module'', JStr ''port-scan'')]"
  have a: "body_field (body (sample_request\<lparr>body := ?b\<rparr>)) ''data'' = None"
    by (simp add: body_field_def)
  have b: "\<not> is_string (body (sample_request\<lparr>body := ?b\<rparr>))"
    by (simp add: is_string_def)
  have c: "payload (fst (submit_handler sample_lib sample_env after_first (sample_request\<lparr>body := ?b\<rparr>)))
       = Error (joi_message (AnyRequired ''data''))"
    by code_simp
  from submit_without_data[OF a b, of sample_lib sample_env after_first] a b c
  show ?thesis by simp
qed

subsection \<open>Result query\<close>

lemma set_insert_desc: "set (insert_desc f x xs) = insert x (set xs)"
  by (induction xs) auto


lemma sorted_insert_desc:
  "sorted_wrt (\<lambda>a b. f b \<le> f a) xs \<Longrightarrow> sorted_wrt (\<lambda>a b. f b \<le> f a) (insert_desc f x xs)"
  by (induction xs) (auto simp: set_insert_desc)

lemma set_order_by_desc: "set (order_by_desc f xs) = set xs"
  by (induction xs) (auto simp: order_by_desc_def set_insert_desc)


lemma sorted_order_by_desc: "sorted_wrt (\<lambda>a b. f b \<le> f a) (order_by_desc f xs)"
  by (induction xs) (auto simp: order_by_desc_def sorted_insert_desc)

lemma where_clause_severity:
  "where_clause agent_id module (Some s) since r \<Longrightarrow> s \<noteq> [] \<Longrightarrow> rs_severity r = Some s"
  by (simp add: where_clause_def)





lemma select_results_Inr:
  assumes "select_results L agent_id module severity since limit offset now u d = Inr (rows, d')"
  shows "\<exists>t lim off. since_param L since = Some t \<and> pg_count limit = Some lim \<and>
           pg_count offset = Some off \<and> d' = d \<and>
           rows = take lim (drop off (order_by_desc rs_timestamp
                   (filter (where_clause agent_id module severity t) (results d))))"
  using assms unfolding select_results_def
  by (cases "since_param L since"; cases "pg_count limit"; cases "pg_count offset") auto



lemma query_handler_page:
  assumes "query_handler L E w req = (r, w')" and "payload r = ResultPage rows n lim off"
  shows "select_results L (query req ''agent_id'') (query req ''module'') (query req ''severity'')
            (query req ''since'')
            (parseInt (case query req ''limit'' of None \<Rightarrow> ''100'' | Some s \<Rightarrow> s))
            (parseInt (case query req ''offset'' of None \<Rightarrow> ''0'' | Some s \<Rightarrow> s))
            (db_now E (calls w)) (uuid E (calls w)) (store w)
          = Inr (rows, store w')"
    and "lim = number_json (parseInt (case query req ''limit'' of None \<Rightarrow> ''100'' | Some s \<Rightarrow> s))"
    and "off = number_json (parseInt (case query req ''offset'' of None \<Rightarrow> ''0'' | Some s \<Rightarrow> s))"
    and "status r = 200" and "n = length rows"
  using assms unfolding query_handler_def pool_query_def Let_def reply_def
  by (auto split: prod.splits sum.splits if_splits)




lemma decimal_0: "decimal 0 = ''0''"
  by code_simp

lemma decimal_1: "decimal (Suc 0) = ''1''"
  by code_simp


text \<open>
  Claim C5: the rows of every result page are sorted by timestamp, descending,
  and when the request has a severity parameter (a non-empty string: the handler
  tests \<open>if (severity)\<close>) every row of the page has exactly that severity.
\<close>

theorem query_sorted_and_filtered:
  assumes "query_handler L E w req = (r, w')" and "payload r = ResultPage rows n lim off"
  shows "sorted_wrt (\<lambda>a b. rs_timestamp b \<le> rs_timestamp a) rows
       \<and> (\<forall>s. query req ''severity'' = Some s \<and> s \<noteq> [] \<longrightarrow>
            list_all (\<lambda>x. rs_severity x = Some s) rows)"
proof -
  from query_handler_page(1)[OF assms] select_results_Inr
  obtain t l k where rows: "rows = take l (drop k (order_by_desc rs_timestamp
       (filter (where_clause (query req ''agent_id'') (query req ''module'')
          (query req ''severity'') t) (results (store w)))))"
    by blast
  have "sorted_wrt (\<lambda>a b. rs_timestamp b \<le> rs_timestamp a) rows"
    unfolding rows by (intro sorted_wrt_take sorted_wrt_drop sorted_order_by_desc)
  moreover have "list_all (\<lambda>x. rs_severity x = Some s) rows"
    if "query req ''severity'' = Some s" "s \<noteq> []" for s
    unfolding rows list_all_iff using that
    by (auto dest!: in_set_takeD in_set_dropD simp: set_order_by_desc where_clause_severity)
  ultimately show ?thesis by blast
qed

theorem query_sorted_and_filtered_witness:
  "query (with_query ''severity'' ''high'') ''severity'' = Some ''high''
   \<and> payload (fst (query_handler sample_lib sample_env filled_world (with_query ''severity'' ''high'')))
       = ResultPage [finding 3 20 ''high'', finding 1 10 ''high''] 2 (JNum 100) (JNum 0)
   \<and> sorted_wrt (\<lambda>a b. rs_timestamp b \<le> rs_timestamp a) [finding 3 20 ''high'', finding 1 10 ''high'']
   \<and> list_all (\<lambda>x. rs_severity x = Some ''high'') [finding 3 20 ''high'', finding 1 10 ''high'']"
proof -
  let ?req = "with_query ''severity'' ''high''"
  have h: "query_handler sample_lib sample_env filled_world ?req
           = (fst (query_handler sample_lib sample_env filled_world ?req),
              snd (query_handler sample_lib sample_env filled_world ?req))"
    by simp
  have p: "payload (fst (query_handler sample_lib sample_env filled_world ?req))
       = ResultPage [finding 3 20 ''high'', finding 1 10 ''high''] 2 (JNum 100) (JNum 0)"
    by code_simp
  have q: "query ?req ''severity'' = Some ''high''"
    by (simp add: with_query_def)
  from query_sorted_and_filtered[OF h p] p q show ?thesis by simp
qed












subsection \<open>Agent listing\<close>




subsection \<open>Rate limit\<close>

lemma decimal_55: "decimal 55 = ''55''"
  by code_simp

lemma decimal_60: "decimal 60 = ''60''"
  by code_simp

lemma limited_client:
  "\<exists>w1. limiter sample_lib 1 sample_env limited_world sample_request
         = (Respond \<lparr>status = 429,
              rate_headers = [(''RateLimit-Limit'', ''1''), (''RateLimit-Remaining'', ''0''),
                              (''RateLimit-Reset'', ''55''), (''RateLimit-Policy'', ''1;w=60''),
                              (''Retry-After'', ''55'')],
              payload = Error ''Too many requests, please try again later''\<rparr>, w1)"
  by (simp add: limiter_def limited_world_def sample_env_def sample_request_def empty_world_def
        sample_lib_def decimal_0 decimal_1 decimal_55)

lemma fresh_client:
  "\<exists>w1. limiter sample_lib 1 sample_env empty_world sample_request
         = (Next [(''RateLimit-Limit'', ''1''), (''RateLimit-Remaining'', ''0''),
                  (''RateLimit-Reset'', ''60''), (''RateLimit-Policy'', ''1;w=60'')], w1)"
  by (simp add: limiter_def sample_env_def sample_request_def empty_world_def
        sample_lib_def decimal_0 decimal_1 decimal_60)

lemma limiter_Respond:
  assumes "limiter L maxhits E w req = (Respond r, w')" and "redis E = Counted"
  shows "\<exists>n reset. hits w' (ip req) = Some (n, reset) \<and> maxhits < n
           \<and> r = \<lparr>status = 429,
                  rate_headers = [(''RateLimit-Limit'', decimal maxhits),
                     (''RateLimit-Remaining'', decimal 0),
                     (''RateLimit-Reset'', decimal ((reset - date_now E + 999) div 1000))]
                    @ further_headers L maxhits ((reset - date_now E + 999) div 1000) True,
                  payload = Error ''Too many requests, please try again later''\<rparr>"
proof -
  define cur where "cur = (case hits w (ip req) of
                        None \<Rightarrow> (1, date_now E + 60000)
                      | Some (n, reset) \<Rightarrow> if date_now E < reset then (Suc n, reset) else (1, date_now E + 60000))"
  have pos: "0 < fst cur"
    by (simp add: cur_def split: option.splits prod.splits)
  define over where "over = (if maxhits = 0 then zero_limit_blocks L else maxhits < fst cur)"
  from assms have o: "over"
    and r: "r = \<lparr>status = 429,
              rate_headers = [(''RateLimit-Limit'', decimal maxhits),
                     (''RateLimit-Remaining'', decimal (maxhits - fst cur)),
                     (''RateLimit-Reset'', decimal ((snd cur - date_now E + 999) div 1000))]
                    @ further_headers L maxhits ((snd cur - date_now E + 999) div 1000) over,
              payload = Error ''Too many requests, please try again later''\<rparr>"
    and w: "w' = w\<lparr>hits := (hits w)(ip req \<mapsto> cur)\<rparr>"
    unfolding limiter_def Let_def cur_def[symmetric] over_def[symmetric]
    by (simp_all split: if_splits)
  from o pos have m: "maxhits < fst cur"
    by (simp add: over_def split: if_splits)
  from w have h: "hits w' (ip req) = Some (fst cur, snd cur)"
    by simp
  from m have z: "maxhits - fst cur = 0"
    by simp
  show ?thesis
  proof (intro exI conjI)
    show "hits w' (ip req) = Some (fst cur, snd cur)" by (rule h)
    show "maxhits < fst cur" by (rule m)
    show "r = \<lparr>status = 429,
                  rate_headers = [(''RateLimit-Limit'', decimal maxhits),
                     (''RateLimit-Remaining'', decimal 0),
                     (''RateLimit-Reset'', decimal ((snd cur - date_now E + 999) div 1000))]
                    @ further_headers L maxhits ((snd cur - date_now E + 999) div 1000) True,
                  payload = Error ''Too many requests, please try again later''\<rparr>"
      using r o z by simp
  qed
qed

text \<open>
  Claim C7 says that a rejection for the rate limit carries the rate-limit headers
  and that its body does not tell it from a rejection for authentication. The
  first part holds, the second does not: a client beyond its limit gets 429 and
  \<open>Too many requests, please try again later\<close>, a client without a key gets 401 and
  \<open>API key required\<close>.
\<close>

theorem rate_limit_body_tells_counterexample:
  "map_option status (fst (protected sample_lib 1 beacon_handler sample_env limited_world sample_request))
       = Some 429
   \<and> map_option payload (fst (protected sample_lib 1 beacon_handler sample_env limited_world sample_request))
       = Some (Error ''Too many requests, please try again later'')
   \<and> map_option status (fst (protected sample_lib 1 beacon_handler sample_env empty_world sample_request))
       = Some 401
   \<and> map_option payload (fst (protected sample_lib 1 beacon_handler sample_env empty_world sample_request))
       = Some (Error ''API key required'')
   \<and> map_option payload (fst (protected sample_lib 1 beacon_handler sample_env limited_world sample_request))
       \<noteq> map_option payload (fst (protected sample_lib 1 beacon_handler sample_env empty_world sample_request))"
proof -
  from limited_client obtain w1 where
    l: "limiter sample_lib 1 sample_env limited_world sample_request
         = (Respond \<lparr>status = 429,
              rate_headers = [(''RateLimit-Limit'', ''1''), (''RateLimit-Remaining'', ''0''),
                              (''RateLimit-Reset'', ''55''), (''RateLimit-Policy'', ''1;w=60''),
                              (''Retry-After'', ''55'')],
              payload = Error ''Too many requests, please try again later''\<rparr>, w1)" ..
  from fresh_client obtain w2 where
    f: "limiter sample_lib 1 sample_env empty_world sample_request
         = (Next [(''RateLimit-Limit'', ''1''), (''RateLimit-Remaining'', ''0''),
                  (''RateLimit-Reset'', ''60''), (''RateLimit-Policy'', ''1;w=60'')], w2)" ..
  have a: "authenticateApiKey sample_lib sample_env w2 sample_request
           = (Respond (reply 401 (Error ''API key required'')), w2)"
    by (rule no_credentials) (simp_all add: sample_request_def)
  have p1: "fst (protected sample_lib 1 beacon_handler sample_env limited_world sample_request)
       = Some \<lparr>status = 429,
              rate_headers = [(''RateLimit-Limit'', ''1''), (''RateLimit-Remaining'', ''0''),
                              (''RateLimit-Reset'', ''55''), (''RateLimit-Policy'', ''1;w=60''),
                              (''Retry-After'', ''55'')],
              payload = Error ''Too many requests, please try again later''\<rparr>"
    unfolding protected_def l by simp
  have p2: "fst (protected sample_lib 1 beacon_handler sample_env empty_world sample_request)
       = Some \<lparr>status = 401,
              rate_headers = [(''RateLimit-Limit'', ''1''), (''RateLimit-Remaining'', ''0''),
                              (''RateLimit-Reset'', ''60''), (''RateLimit-Policy'', ''1;w=60'')],
              payload = Error ''API key required''\<rparr>"
    unfolding protected_def f by (simp add: a reply_def)
  show ?thesis unfolding p1 p2 by simp
qed

text \<open>
  Claim C7, as amended: when the limiter, its hit counted by Redis, answers a
  request itself, the client's count is above the maximum, the status is 429,
  the body is \<open>Too many requests, please try again later\<close>, and among the headers
  (the installed release may add others) are \<open>RateLimit-Limit\<close> with the maximum,
  \<open>RateLimit-Remaining\<close> with zero and \<open>RateLimit-Reset\<close> with the seconds to the end
  of the client's window; every response of the authentication middleware
  differs from it in body and in status.
\<close>

theorem rate_limited_rejection:
  assumes "limiter L maxhits E w req = (Respond r, w')" and "redis E = Counted"
  shows "status r = 429
       \<and> payload r = Error ''Too many requests, please try again later''
       \<and> (\<exists>n reset. hits w' (ip req) = Some (n, reset) \<and> maxhits < n
            \<and> map_of (rate_headers r) ''RateLimit-Limit'' = Some (decimal maxhits)
            \<and> map_of (rate_headers r) ''RateLimit-Remaining'' = Some (decimal 0)
            \<and> map_of (rate_headers r) ''RateLimit-Reset''
                = Some (decimal ((reset - date_now E + 999) div 1000)))
       \<and> (\<forall>L' E' w0 req' r' w1. authenticateApiKey L' E' w0 req' = (Respond r', w1) \<longrightarrow>
             payload r' \<noteq> payload r \<and> status r' \<noteq> status r)"
proof -
  from limiter_Respond[OF assms] obtain n reset where
    h: "hits w' (ip req) = Some (n, reset)" and m: "maxhits < n"
    and r: "r = \<lparr>status = 429,
                  rate_headers = [(''RateLimit-Limit'', decimal maxhits),
                     (''RateLimit-Remaining'', decimal 0),
                     (''RateLimit-Reset'', decimal ((reset - date_now E + 999) div 1000))]
                    @ further_headers L maxhits ((reset - date_now E + 999) div 1000) True,
                  payload = Error ''Too many requests, please try again later''\<rparr>"
    by blast
  have a: "payload r' \<noteq> payload r \<and> status r' \<noteq> status r"
    if "authenticateApiKey L' E' w0 req' = (Respond r', w1)" for L' E' w0 req' r' w1
    using authenticateApiKey_Respond[OF that] r by (auto simp: reply_def)
  show ?thesis
  proof (intro conjI exI allI impI)
    show "status r = 429" using r by simp
    show "payload r = Error ''Too many requests, please try again later''" using r by simp
    show "hits w' (ip req) = Some (n, reset)" by (rule h)
    show "maxhits < n" by (rule m)
    show "map_of (rate_headers r) ''RateLimit-Limit'' = Some (decimal maxhits)" using r by simp
    show "map_of (rate_headers r) ''RateLimit-Remaining'' = Some (decimal 0)" using r by simp
    show "map_of (rate_headers r) ''RateLimit-Reset''
                = Some (decimal ((reset - date_now E + 999) div 1000))" using r by simp
    show "payload r' \<noteq> payload r" if "authenticateApiKey L' E' w0 req' = (Respond r', w1)"
      for L' E' w0 req' r' w1 using a[OF that] by simp
    show "status r' \<noteq> status r" if "authenticateApiKey L' E' w0 req' = (Respond r', w1)"
      for L' E' w0 req' r' w1 using a[OF that] by simp
  qed
qed

theorem rate_limited_rejection_witness:
  "redis sample_env = Counted
   \<and> fst (limiter sample_lib 1 sample_env limited_world sample_request)
       = Respond \<lparr>status = 429,
           rate_headers = [(''RateLimit-Limit'', ''1''), (''RateLimit-Remaining'', ''0''),
                           (''RateLimit-Reset'', ''55''), (''RateLimit-Policy'', ''1;w=60''),
                           (''Retry-After'', ''55'')],
           payload = Error ''Too many requests, please try again later''\<rparr>
   \<and> hits (snd (limiter sample_lib 1 sample_env limited_world sample_request)) ''10.0.0.7''
       = Some (2, 60000)
   \<and> authenticateApiKey sample_lib sample_env empty_world sample_request
       = (Respond (reply 401 (Error ''API key required'')), empty_world)
   \<and> Error ''API key required'' \<noteq> Error ''Too many requests, please try again later''"
proof -
  let ?r = "\<lparr>status = 429,
           rate_headers = [(''RateLimit-Limit'', ''1''), (''RateLimit-Remaining'', ''0''),
                           (''RateLimit-Reset'', ''55''), (''RateLimit-Policy'', ''1;w=60''),
                           (''Retry-After'', ''55'')],
           payload = Error ''Too many requests, please try again later''\<rparr>"
  have f: "fst (limiter sample_lib 1 sample_env limited_world sample_request) = Respond ?r"
    using limited_client by auto
  then have l: "limiter sample_lib 1 sample_env limited_world sample_request
                = (Respond ?r, snd (limiter sample_lib 1 sample_env limited_world sample_request))"
    by (simp add: prod_eq_iff)
  have c: "redis sample_env = Counted"
    by (simp add: sample_env_def)
  have h: "hits (snd (limiter sample_lib 1 sample_env limited_world sample_request)) ''10.0.0.7''
       = Some (2, 60000)"
    by (simp add: limiter_def limited_world_def sample_env_def sample_request_def empty_world_def
          sample_lib_def Let_def)
  have a: "authenticateApiKey sample_lib sample_env empty_world sample_request
       = (Respond (reply 401 (Error ''API key required'')), empty_world)"
    by (rule no_credentials) (simp_all add: sample_request_def)
  from rate_limited_rejection[OF l c] a have "status ?r = 429"
    and "payload (reply 401 (Error ''API key required'')) \<noteq> payload ?r"
    by blast+
  with c f h a show ?thesis
    by (simp add: reply_def)
qed

end
